theory Spec2Isabelle
  imports Complex_Main "HOL-Library.Product_Lexorder"
begin

section \<open>Time values\<close>

text \<open>
  A Python \<^verbatim>\<open>datetime\<close> is modelled as the number of microseconds since midnight of a
  fixed epoch day, a \<^verbatim>\<open>timedelta\<close> as a number of microseconds, a \<^verbatim>\<open>date\<close> as a day
  number and a \<^verbatim>\<open>time\<close> (time of day) as the number of microseconds since midnight.
  Python's datetimes are naive here (no time zone) and bounded by the years 1 and 9999; the
  model leaves the bound out. Timestamps are kept in the store as ISO strings written by
  \<^verbatim>\<open>isoformat()\<close>, whose lexicographic order is the chronological order, so the model
  keeps the instants themselves.
\<close>

type_synonym datetime = int
type_synonym timedelta = int
type_synonym date = int
type_synonym time = int

definition usec_sec :: int where "usec_sec = 1000000"
definition usec_min :: int where "usec_min = 60000000"
definition usec_hour :: int where "usec_hour = 3600000000"
definition usec_day :: int where "usec_day = 86400000000"

definition date_of :: "datetime \<Rightarrow> date" where
  "date_of dt = dt div usec_day"

definition time_of :: "datetime \<Rightarrow> time" where
  "time_of dt = dt mod usec_day"

definition combine :: "date \<Rightarrow> time \<Rightarrow> datetime" where
  "combine d t = d * usec_day + t"

definition hour_of :: "time \<Rightarrow> int" where
  "hour_of t = t div usec_hour"

definition minute_of :: "time \<Rightarrow> int" where
  "minute_of t = (t mod usec_hour) div usec_min"

definition hm :: "int \<Rightarrow> int \<Rightarrow> time" where
  \<comment> \<open>the time of day \<^verbatim>\<open>HH:MM\<close>, as \<^verbatim>\<open>strptime(s, "%H:%M").time()\<close> returns it\<close>
  "hm h m = h * usec_hour + m * usec_min"

definition minutes :: "timedelta \<Rightarrow> rat" where
  \<comment> \<open>\<^verbatim>\<open>td.total_seconds() / 60\<close>; Python computes it in binary floating point, the model
      exactly (the two agree on spans of whole minutes)\<close>
  "minutes td = of_int td / of_int usec_min"

definition replace_hm :: "datetime \<Rightarrow> time \<Rightarrow> datetime" where
  \<comment> \<open>\<^verbatim>\<open>dt.replace(hour=t.hour, minute=t.minute, second=0, microsecond=0)\<close>\<close>
  "replace_hm dt t = combine (date_of dt) (hm (hour_of t) (minute_of t))"

definition parse_datetime :: "datetime \<Rightarrow> datetime" where
  \<comment> \<open>\<^verbatim>\<open>parse_datetime\<close> of a stored ISO string: the fraction of a second is cut off
      (\<^verbatim>\<open>date_string.split('.')[0]\<close>)\<close>
  "parse_datetime dt = dt - dt mod usec_sec"

definition round_to_interval :: "datetime \<Rightarrow> int \<Rightarrow> datetime" where
  \<comment> \<open>Python raises \<^verbatim>\<open>ZeroDivisionError\<close> for \<^verbatim>\<open>minutes = 0\<close>; the preferences route
      stores only 5, 10, 15 or 30, and the theorems below assume a positive interval\<close>
  "round_to_interval dt mins =
     (let minute = minute_of (time_of dt);
          remainder = minute mod mins
      in if remainder = 0 then dt
         else (dt - dt mod usec_hour) + ((minute div mins + 1) * mins) * usec_min)"

section \<open>Preferences, events and the store\<close>

record prefs =
  sleep_start :: time
  sleep_end :: time
  work_start :: time
  work_end :: time
  round_to_minutes :: int

datatype category = Work | Meeting | Personal | Recreational | Meal | OtherCategory string

record preferred_time =
  pt_enabled :: bool
  pt_start :: "time option"
  pt_end :: "time option"

record event =
  ev_id :: nat
  title :: string
  ev_category :: category
  priority :: string
  ev_type :: string
  ev_start :: datetime
  ev_end :: datetime
  locked :: bool
  ev_preferred_time :: "preferred_time option"

text \<open>
  The store: its rows, the preferences row, and the clock of the database engine.
  \<^verbatim>\<open>datetime('now')\<close> of SQLite is the text \<^verbatim>\<open>YYYY-MM-DD HH:MM:SS\<close>, while the rows hold
  \<^verbatim>\<open>YYYY-MM-DDTHH:MM:SS\<close>; the comparison \<^verbatim>\<open>end_time >= datetime('now')\<close> is a comparison
  of texts, decided by the date and, on equal dates, by \<^verbatim>\<open>'T' > ' '\<close>: it holds exactly
  when the date of \<^verbatim>\<open>end_time\<close> is not before the date of the database clock.
\<close>

record db =
  db_events :: "event list"
  db_prefs :: prefs
  db_now :: datetime

definition check_conflicts :: "db \<Rightarrow> datetime \<Rightarrow> datetime \<Rightarrow> bool" where
  "check_conflicts d start_time end_time =
     (0 < length (filter (\<lambda>ev. ev_start ev < end_time \<and> ev_end ev > start_time
                               \<and> date_of (db_now d) \<le> date_of (ev_end ev)) (db_events d)))"

definition create_event :: "db \<Rightarrow> event \<Rightarrow> db" where
  \<comment> \<open>\<^verbatim>\<open>INSERT INTO events\<close>: the new row gets a fresh id (\<^verbatim>\<open>lastrowid\<close>)\<close>
  "create_event d ev =
     d\<lparr>db_events := db_events d @ [ev\<lparr>ev_id := Suc (fold max (map ev_id (db_events d)) 0)\<rparr>]\<rparr>"

section \<open>Time validators\<close>

definition is_during_sleep :: "datetime \<Rightarrow> prefs \<Rightarrow> bool" where
  "is_during_sleep dt p =
     (let dt_time = time_of dt in
      if sleep_start p > sleep_end p
      then dt_time \<ge> sleep_start p \<or> dt_time < sleep_end p
      else sleep_start p \<le> dt_time \<and> dt_time < sleep_end p)"

definition adjust_to_work_hours :: "datetime \<Rightarrow> prefs \<Rightarrow> datetime" where
  "adjust_to_work_hours dt p =
     (let dt_time = time_of dt in
      if dt_time < work_start p then replace_hm dt (work_start p)
      else if dt_time \<ge> work_end p then replace_hm (dt + usec_day) (work_start p)
      else dt)"

section \<open>Slot scoring\<close>

definition in_preferred :: "time \<Rightarrow> time \<Rightarrow> time \<Rightarrow> bool" where
  "in_preferred pref_start pref_end slot_time =
     (if pref_end \<le> pref_start
      then slot_time \<ge> pref_start \<or> slot_time < pref_end
      else pref_start \<le> slot_time \<and> slot_time < pref_end)"

definition preferred_distance :: "time \<Rightarrow> time \<Rightarrow> time \<Rightarrow> int" where
  "preferred_distance pref_start pref_end slot_time =
     (let slot_minutes = hour_of slot_time * 60 + minute_of slot_time;
          pref_start_minutes = hour_of pref_start * 60 + minute_of pref_start;
          pref_end_minutes = hour_of pref_end * 60 + minute_of pref_end
      in if pref_end \<le> pref_start
         then (if slot_minutes \<ge> pref_start_minutes
               then min (slot_minutes - pref_end_minutes) (pref_start_minutes - slot_minutes)
               else min (pref_start_minutes - slot_minutes)
                        (slot_minutes + (24 * 60 - pref_end_minutes)))
         else (if slot_minutes < pref_start_minutes
               then pref_start_minutes - slot_minutes
               else slot_minutes - pref_end_minutes))"

definition mode2 :: "preferred_time option \<Rightarrow> bool" where
  \<comment> \<open>\<^verbatim>\<open>preferred_time_config and preferred_time_config.get("enabled")\<close>\<close>
  "mode2 cfg = (case cfg of None \<Rightarrow> False | Some c \<Rightarrow> pt_enabled c)"

definition factor1 :: "datetime \<Rightarrow> time \<Rightarrow> time \<Rightarrow> preferred_time option \<Rightarrow> rat" where
  "factor1 slot_start work_start_t work_end_t cfg =
     (let slot_time = time_of slot_start in
      case cfg of
        None \<Rightarrow> 0
      | Some c \<Rightarrow>
          if pt_enabled c then
            (case (pt_start c, pt_end c) of
               (Some pref_start, Some pref_end) \<Rightarrow>
                 if in_preferred pref_start pref_end slot_time then 50
                 else (let distance = preferred_distance pref_start pref_end slot_time in
                       if distance \<le> 60 then 35
                       else if distance \<le> 120 then 20
                       else if work_start_t \<le> slot_time \<and> slot_time < work_end_t then 10
                       else 0)
             | _ \<Rightarrow> 0)
          else 0)"

definition factor2 :: "datetime \<Rightarrow> datetime \<Rightarrow> time \<Rightarrow> time \<Rightarrow> rat" where
  "factor2 slot_start slot_end work_start_t work_end_t =
     (let slot_date = date_of slot_start; slot_time = time_of slot_start in
      if work_start_t \<le> slot_time \<and> slot_time < work_end_t then
        (let minutes_from_start = minutes (slot_start - combine slot_date work_start_t);
             minutes_from_end = minutes (combine slot_date work_end_t - slot_end);
             edge_distance = min minutes_from_start minutes_from_end
         in if edge_distance \<ge> 60 then 30
            else if edge_distance \<ge> 30 then 25
            else 20)
      else 5)"

fun gaps :: "datetime \<Rightarrow> datetime \<Rightarrow> event list \<Rightarrow> rat \<times> rat \<Rightarrow> rat \<times> rat" where
  "gaps slot_start slot_end [] g = g"
| "gaps slot_start slot_end (ev # evs) (gap_before, gap_after) =
     (let event_start = parse_datetime (ev_start ev);
          event_end = parse_datetime (ev_end ev);
          gap_before' = (if event_end \<le> slot_start
                         then min gap_before (minutes (slot_start - event_end))
                         else gap_before);
          gap_after' = (if event_start \<ge> slot_end
                        then min gap_after (minutes (event_start - slot_end))
                        else gap_after)
      in gaps slot_start slot_end evs (gap_before', gap_after'))"

definition factor3 :: "datetime \<Rightarrow> datetime \<Rightarrow> event list \<Rightarrow> rat" where
  "factor3 slot_start slot_end all_events =
     (let (gap_before, gap_after) = gaps slot_start slot_end all_events (999, 999);
          avg_gap = (gap_before + gap_after) / 2
      in if avg_gap \<ge> 60 then 20
         else if avg_gap \<ge> 30 then 15
         else if avg_gap \<ge> 15 then 8
         else 0)"

definition factor4 :: "datetime \<Rightarrow> event list \<Rightarrow> rat" where
  "factor4 slot_start all_events =
     (let slot_date = date_of slot_start;
          same_day_events = filter (\<lambda>e. date_of (parse_datetime (ev_start e)) = slot_date)
                                   all_events;
          same_day_duration =
            sum_list (map (\<lambda>e. minutes (parse_datetime (ev_end e) - parse_datetime (ev_start e)))
                          same_day_events)
      in if same_day_duration < 180 then 15
         else if same_day_duration < 300 then 12
         else if same_day_duration < 420 then 8
         else 4)"

definition factor5 :: "datetime \<Rightarrow> rat" where
  "factor5 slot_start =
     (let hour = hour_of (time_of slot_start) in
      if (10 \<le> hour \<and> hour < 11) \<or> (14 \<le> hour \<and> hour < 16) then 10
      else if (9 \<le> hour \<and> hour < 10) \<or> (11 \<le> hour \<and> hour < 14) \<or> (16 \<le> hour \<and> hour < 17)
      then 7
      else 3)"

definition factor6 :: "datetime \<Rightarrow> datetime option \<Rightarrow> rat" where
  "factor6 slot_start earliest_start =
     (case earliest_start of
        None \<Rightarrow> 0
      | Some es \<Rightarrow>
          (let days_from_start = date_of slot_start - date_of es in
           if days_from_start = 0 then 2
           else if days_from_start \<le> 3 then 3 / 2
           else if days_from_start \<le> 7 then 1
           else if days_from_start \<le> 14 then 1 / 2
           else 0))"

definition score_slot_quality ::
  "datetime \<Rightarrow> datetime \<Rightarrow> event list \<Rightarrow> prefs \<Rightarrow> time \<Rightarrow> time
     \<Rightarrow> preferred_time option \<Rightarrow> datetime option \<Rightarrow> rat" where
  "score_slot_quality slot_start slot_end all_events p work_start_t work_end_t cfg earliest_start =
     factor1 slot_start work_start_t work_end_t cfg
     + (if \<not> mode2 cfg then factor2 slot_start slot_end work_start_t work_end_t else 0)
     + (if \<not> mode2 cfg then factor3 slot_start slot_end all_events else 0)
     + (if \<not> mode2 cfg then factor4 slot_start all_events else 0)
     + (if \<not> mode2 cfg then factor5 slot_start else 0)
     + factor6 slot_start earliest_start"

section \<open>The slot finder\<close>

type_synonym slot = "datetime \<times> datetime"

text \<open>
  The \<^verbatim>\<open>while\<close> loop of \<^verbatim>\<open>find_available_slot\<close>. It need not end: the jump to the wake
  time can move \<^verbatim>\<open>current_time\<close> backwards. The loop therefore runs on fuel, and \<open>None\<close>
  says that the fuel ran out.
\<close>

fun fas_loop ::
  "nat \<Rightarrow> db \<Rightarrow> datetime \<Rightarrow> datetime \<Rightarrow> timedelta \<Rightarrow> datetime \<Rightarrow> slot list
     \<Rightarrow> slot list option" where
  "fas_loop 0 d start_time end_time duration current_time candidate_slots = None"
| "fas_loop (Suc n) d start_time end_time duration current_time candidate_slots =
     (let p = db_prefs d; round_to = round_to_minutes p in
      if current_time + duration \<le> end_time \<and> length candidate_slots < 50 then
        if is_during_sleep current_time p then
          (let ct1 = replace_hm current_time (sleep_end p);
               ct2 = (if ct1 < start_time then ct1 + usec_day else ct1)
           in fas_loop n d start_time end_time duration (round_to_interval ct2 round_to)
                candidate_slots)
        else
          (let slot_end = current_time + duration in
           if is_during_sleep slot_end p then
             fas_loop n d start_time end_time duration
               (round_to_interval (adjust_to_work_hours (current_time + usec_day) p) round_to)
               candidate_slots
           else
             fas_loop n d start_time end_time duration (current_time + round_to * usec_min)
               (if \<not> check_conflicts d current_time slot_end
                then candidate_slots @ [(current_time, slot_end)]
                else candidate_slots))
      else Some candidate_slots)"

definition best_slot :: "(rat \<times> slot) list \<Rightarrow> slot" where
  \<comment> \<open>\<^verbatim>\<open>scored_slots.sort(key=lambda x: x[0], reverse=True)\<close> is stable; its head\<close>
  "best_slot scored_slots = snd (hd (sort_key (\<lambda>x. - fst x) scored_slots))"

definition find_available_slot ::
  "nat \<Rightarrow> db \<Rightarrow> datetime \<Rightarrow> datetime \<Rightarrow> timedelta \<Rightarrow> slot option option" where
  "find_available_slot fuel d start_time end_time duration =
     (let p = db_prefs d; round_to = round_to_minutes p; all_events = db_events d in
      case fas_loop fuel d start_time end_time duration
             (round_to_interval start_time round_to) [] of
        None \<Rightarrow> None
      | Some candidate_slots \<Rightarrow>
          Some (if candidate_slots = [] then None
                else if length candidate_slots = 1 then Some (hd candidate_slots)
                else Some (best_slot
                  (map (\<lambda>(slot_start, slot_end).
                          (score_slot_quality slot_start slot_end all_events p
                             (work_start p) (work_end p) None (Some start_time),
                           (slot_start, slot_end)))
                       candidate_slots))))"

section \<open>The recurring-event handler\<close>

text \<open>
  The request as the handler reads it: \<^verbatim>\<open>int(data["duration"])\<close>,
  \<^verbatim>\<open>int(data["frequency"])\<close>, \<^verbatim>\<open>parse_datetime(data.get("start_date"))\<close> (\<open>None\<close> for an
  empty text) and the preferred-time dictionary with its times parsed. Texts that do not
  parse raise in Python and are outside the model.
\<close>

record recurring_request =
  rq_title :: string
  rq_priority :: string
  rq_category :: category
  rq_duration :: int
  rq_frequency :: int
  rq_start_date :: "datetime option"
  rq_preferred_time :: "preferred_time option"

definition preferred_window :: "preferred_time option \<Rightarrow> (time \<times> time) option" where
  \<comment> \<open>\<^verbatim>\<open>has_preferred_time and cfg.get("start") and cfg.get("end")\<close>, then the parsed pair\<close>
  "preferred_window cfg =
     (case cfg of
        None \<Rightarrow> None
      | Some c \<Rightarrow>
          if pt_enabled c
          then (case (pt_start c, pt_end c) of
                  (Some pref_start, Some pref_end) \<Rightarrow> Some (pref_start, pref_end)
                | _ \<Rightarrow> None)
          else None)"

definition day_start_of :: "datetime \<Rightarrow> datetime" where
  \<comment> \<open>\<^verbatim>\<open>current_date.replace(hour=0, minute=0, second=0)\<close>: the microsecond stays\<close>
  "day_start_of current_date = combine (date_of current_date) (current_date mod usec_sec)"

definition day_end_of :: "datetime \<Rightarrow> datetime" where
  \<comment> \<open>\<^verbatim>\<open>current_date.replace(hour=23, minute=59, second=59)\<close>\<close>
  "day_end_of current_date =
     combine (date_of current_date) (hm 23 59 + 59 * usec_sec + current_date mod usec_sec)"

definition recurring_slot ::
  "nat \<Rightarrow> db \<Rightarrow> preferred_time option \<Rightarrow> timedelta \<Rightarrow> datetime \<Rightarrow> slot option option" where
  "recurring_slot fuel d cfg duration current_date =
     (let p = db_prefs d; cd = date_of current_date in
      case preferred_window cfg of
        Some (pref_start, pref_end) \<Rightarrow>
          (let is_overnight = pref_end \<le> pref_start;
               pref_window_start = combine cd pref_start;
               pref_window_end = (if is_overnight then combine (cd + 1) pref_end
                                  else combine cd pref_end)
           in case find_available_slot fuel d pref_window_start pref_window_end duration of
                None \<Rightarrow> None
              | Some (Some sl) \<Rightarrow> Some (Some sl)
              | Some None \<Rightarrow>
             (case find_available_slot fuel d (pref_window_start - usec_hour)
                     (pref_window_end + usec_hour) duration of
                None \<Rightarrow> None
              | Some (Some sl) \<Rightarrow> Some (Some sl)
              | Some None \<Rightarrow>
             (case find_available_slot fuel d (combine cd (work_start p))
                     (combine cd (work_end p)) duration of
                None \<Rightarrow> None
              | Some (Some sl) \<Rightarrow> Some (Some sl)
              | Some None \<Rightarrow>
                find_available_slot fuel d (day_start_of current_date)
                  (day_end_of current_date) duration)))
      | None \<Rightarrow>
          find_available_slot fuel d (day_start_of current_date) (day_end_of current_date)
            duration)"

definition recurring_instance :: "recurring_request \<Rightarrow> slot \<Rightarrow> event" where
  "recurring_instance data sl =
     \<lparr>ev_id = 0, title = rq_title data, ev_category = rq_category data,
      priority = rq_priority data, ev_type = ''recurring_instance'',
      ev_start = fst sl, ev_end = snd sl, locked = False,
      ev_preferred_time = rq_preferred_time data\<rparr>"

text \<open>
  The loop over the occurrences. It is entered only after the check of the frequency, so
  the frequency is positive there; the guard repeats it, which makes the recursion total.
\<close>

function recurring_loop ::
  "nat \<Rightarrow> datetime \<Rightarrow> recurring_request \<Rightarrow> timedelta \<Rightarrow> int \<Rightarrow> datetime \<Rightarrow> datetime
     \<Rightarrow> db \<Rightarrow> event list \<Rightarrow> (db \<times> event list) option" where
  "recurring_loop fuel now data duration frequency end_date current_date d scheduled_instances =
     (if current_date \<le> end_date \<and> 0 < frequency then
        if current_date < now then
          recurring_loop fuel now data duration frequency end_date
            (current_date + frequency * usec_day) d scheduled_instances
        else
          (case recurring_slot fuel d (rq_preferred_time data) duration current_date of
             None \<Rightarrow> None
           | Some None \<Rightarrow>
               recurring_loop fuel now data duration frequency end_date
                 (current_date + frequency * usec_day) d scheduled_instances
           | Some (Some sl) \<Rightarrow>
               (let instance = recurring_instance data sl in
                recurring_loop fuel now data duration frequency end_date
                  (current_date + frequency * usec_day) (create_event d instance)
                  (scheduled_instances @ [instance])))
      else Some (d, scheduled_instances))"
  by pat_completeness auto
termination
  by (relation "measure (\<lambda>(fuel, now, data, duration, frequency, end_date, current_date, d, s).
                 nat (end_date - current_date + 1))")
     (auto simp: usec_day_def)

declare recurring_loop.simps [simp del]

definition handle_recurring_event ::
  "nat \<Rightarrow> datetime \<Rightarrow> db \<Rightarrow> recurring_request \<Rightarrow> (bool \<times> event list \<times> db) option" where
  \<comment> \<open>the result: the boolean returned, the list \<^verbatim>\<open>scheduled_instances\<close>, the store after\<close>
  "handle_recurring_event fuel now d data =
     (let duration_minutes = rq_duration data in
      if duration_minutes \<le> 0 then Some (False, [], d)
      else
        (let duration = duration_minutes * usec_min; frequency = rq_frequency data in
         if frequency \<le> 0 then Some (False, [], d)
         else
           (case rq_start_date data of
              None \<Rightarrow> Some (False, [], d)
            | Some sd \<Rightarrow>
                (let start_date = (if sd < now then combine (date_of now) 0 else sd);
                     end_date = start_date + 30 * usec_day
                 in case recurring_loop fuel now data duration frequency end_date start_date d []
                    of None \<Rightarrow> None
                     | Some (d', scheduled_instances) \<Rightarrow>
                         Some (scheduled_instances \<noteq> [], scheduled_instances, d')))))"

section \<open>The floating-event handler\<close>

record floating_request =
  fq_duration :: int
  fq_earliest_start :: "datetime option"
  fq_deadline :: "datetime option"
  fq_preferred_time :: "preferred_time option"

definition window_slot ::
  "nat \<Rightarrow> db \<Rightarrow> datetime \<Rightarrow> datetime \<Rightarrow> timedelta \<Rightarrow> slot option option" where
  \<comment> \<open>\<^verbatim>\<open>if day_end > day_start: slot = find_available_slot(day_start, day_end, duration)\<close>\<close>
  "window_slot fuel d w_start w_end duration =
     (if w_end > w_start then find_available_slot fuel d w_start w_end duration else Some None)"

definition floating_day_slot ::
  "nat \<Rightarrow> db \<Rightarrow> time \<Rightarrow> time \<Rightarrow> timedelta \<Rightarrow> datetime \<Rightarrow> datetime \<Rightarrow> date
     \<Rightarrow> slot option option" where
  "floating_day_slot fuel d pref_start pref_end duration earliest_start deadline current_date =
     (let p = db_prefs d;
          is_overnight = pref_end \<le> pref_start;
          next_date = current_date + 1;
          day_start = (if current_date = date_of earliest_start
                       then max (combine current_date pref_start) earliest_start
                       else combine current_date pref_start);
          day_end = (if is_overnight
                     then (if next_date = date_of deadline
                           then min (combine next_date pref_end) deadline
                           else combine next_date pref_end)
                     else (if current_date = date_of deadline
                           then min (combine current_date pref_end) deadline
                           else combine current_date pref_end));
          expanded_start = (if current_date = date_of earliest_start
                            then max (combine current_date pref_start - usec_hour) earliest_start
                            else combine current_date pref_start - usec_hour);
          expanded_end = (if is_overnight
                          then (if next_date = date_of deadline
                                then min (combine next_date pref_end + usec_hour) deadline
                                else combine next_date pref_end + usec_hour)
                          else (if current_date = date_of deadline
                                then min (combine current_date pref_end + usec_hour) deadline
                                else combine current_date pref_end + usec_hour));
          work_day_start = (if current_date = date_of earliest_start
                            then max (combine current_date (work_start p)) earliest_start
                            else combine current_date (work_start p));
          work_day_end = (if current_date = date_of deadline
                          then min (combine current_date (work_end p)) deadline
                          else combine current_date (work_end p));
          full_day_start = (if current_date = date_of earliest_start
                            then max (combine current_date 0) earliest_start
                            else combine current_date 0);
          full_day_end = (if current_date = date_of deadline
                          then min (combine current_date (usec_day - 1)) deadline
                          else combine current_date (usec_day - 1))
      in case window_slot fuel d day_start day_end duration of
           None \<Rightarrow> None
         | Some (Some sl) \<Rightarrow> Some (Some sl)
         | Some None \<Rightarrow>
        (case window_slot fuel d expanded_start expanded_end duration of
           None \<Rightarrow> None
         | Some (Some sl) \<Rightarrow> Some (Some sl)
         | Some None \<Rightarrow>
        (case window_slot fuel d work_day_start work_day_end duration of
           None \<Rightarrow> None
         | Some (Some sl) \<Rightarrow> Some (Some sl)
         | Some None \<Rightarrow> window_slot fuel d full_day_start full_day_end duration)))"

function floating_loop ::
  "nat \<Rightarrow> db \<Rightarrow> preferred_time option \<Rightarrow> time \<Rightarrow> time \<Rightarrow> timedelta \<Rightarrow> datetime \<Rightarrow> datetime
     \<Rightarrow> date \<Rightarrow> (rat \<times> slot) list \<Rightarrow> (rat \<times> slot) list option" where
  "floating_loop fuel d cfg pref_start pref_end duration earliest_start deadline current_date
     candidate_slots =
     (if current_date \<le> date_of deadline \<and> length candidate_slots < 50 then
        (case floating_day_slot fuel d pref_start pref_end duration earliest_start deadline
                current_date of
           None \<Rightarrow> None
         | Some None \<Rightarrow>
             floating_loop fuel d cfg pref_start pref_end duration earliest_start deadline
               (current_date + 1) candidate_slots
         | Some (Some sl) \<Rightarrow>
             (let score = score_slot_quality (fst sl) (snd sl) (db_events d) (db_prefs d)
                            (work_start (db_prefs d)) (work_end (db_prefs d)) cfg
                            (Some earliest_start)
              in floating_loop fuel d cfg pref_start pref_end duration earliest_start deadline
                   (current_date + 1) (candidate_slots @ [(score, sl)])))
      else Some candidate_slots)"
  by pat_completeness auto
termination
  by (relation "measure (\<lambda>(fuel, d, cfg, ps, pe, duration, es, deadline, current_date, c).
                 nat (date_of deadline - current_date + 1))")
     auto

declare floating_loop.simps [simp del]

definition handle_floating_event ::
  "nat \<Rightarrow> datetime \<Rightarrow> db \<Rightarrow> floating_request \<Rightarrow> event \<Rightarrow> (bool \<times> db) option" where
  \<comment> \<open>the result: the boolean returned and the store after\<close>
  "handle_floating_event fuel now d data new_event =
     (let duration_minutes = fq_duration data in
      if duration_minutes \<le> 0 then Some (False, d)
      else
        (let duration = duration_minutes * usec_min in
         case (fq_earliest_start data, fq_deadline data) of
           (Some earliest_start0, Some deadline) \<Rightarrow>
             if deadline \<le> earliest_start0 then Some (False, d)
             else if deadline < now then Some (False, d)
             else
               (let earliest_start = (if earliest_start0 < now then now else earliest_start0);
                    cfg = fq_preferred_time data
                in case preferred_window cfg of
                     Some (pref_start, pref_end) \<Rightarrow>
                       (case floating_loop fuel d cfg pref_start pref_end duration earliest_start
                               deadline (date_of earliest_start) [] of
                          None \<Rightarrow> None
                        | Some candidate_slots \<Rightarrow>
                            if candidate_slots \<noteq> [] then
                              (let best = best_slot candidate_slots in
                               Some (True, create_event d
                                 (new_event\<lparr>ev_start := fst best, ev_end := snd best,
                                    ev_preferred_time := cfg\<rparr>)))
                            else Some (False, d))
                   | None \<Rightarrow>
                       (case find_available_slot fuel d earliest_start deadline duration of
                          None \<Rightarrow> None
                        | Some None \<Rightarrow> Some (False, d)
                        | Some (Some sl) \<Rightarrow>
                            Some (True, create_event d
                              (new_event\<lparr>ev_start := fst sl, ev_end := snd sl,
                                 ev_preferred_time := cfg\<rparr>))))
         | _ \<Rightarrow> Some (False, d)))"

section \<open>The fallback search as a search over an ordered list of windows\<close>

text \<open>
  The handlers write the four fallback levels out one after the other. The definitions of
  this section state the same search over a list of windows, tried in order until the
  first one yields a slot; the handlers' own searches are proved equal to it below.
\<close>

fun first_slot :: "nat \<Rightarrow> db \<Rightarrow> timedelta \<Rightarrow> (datetime \<times> datetime) list \<Rightarrow> slot option option" where
  "first_slot fuel d duration [] = Some None"
| "first_slot fuel d duration (w # ws) =
     (case find_available_slot fuel d (fst w) (snd w) duration of
        None \<Rightarrow> None
      | Some (Some sl) \<Rightarrow> Some (Some sl)
      | Some None \<Rightarrow> first_slot fuel d duration ws)"

definition recurring_windows :: "prefs \<Rightarrow> time \<Rightarrow> time \<Rightarrow> datetime \<Rightarrow> (datetime \<times> datetime) list" where
  "recurring_windows p pref_start pref_end current_date =
     (let cd = date_of current_date;
          pref_window_start = combine cd pref_start;
          pref_window_end = (if pref_end \<le> pref_start then combine (cd + 1) pref_end
                             else combine cd pref_end)
      in [(pref_window_start, pref_window_end),
          (pref_window_start - usec_hour, pref_window_end + usec_hour),
          (combine cd (work_start p), combine cd (work_end p)),
          (day_start_of current_date, day_end_of current_date)])"

definition floating_windows ::
  "prefs \<Rightarrow> time \<Rightarrow> time \<Rightarrow> datetime \<Rightarrow> datetime \<Rightarrow> date \<Rightarrow> (datetime \<times> datetime) list" where
  \<comment> \<open>the four windows of one day; a window that is empty is not searched\<close>
  "floating_windows p pref_start pref_end earliest_start deadline current_date =
     (let is_overnight = pref_end \<le> pref_start;
          next_date = current_date + 1;
          day_start = (if current_date = date_of earliest_start
                       then max (combine current_date pref_start) earliest_start
                       else combine current_date pref_start);
          day_end = (if is_overnight
                     then (if next_date = date_of deadline
                           then min (combine next_date pref_end) deadline
                           else combine next_date pref_end)
                     else (if current_date = date_of deadline
                           then min (combine current_date pref_end) deadline
                           else combine current_date pref_end));
          expanded_start = (if current_date = date_of earliest_start
                            then max (combine current_date pref_start - usec_hour) earliest_start
                            else combine current_date pref_start - usec_hour);
          expanded_end = (if is_overnight
                          then (if next_date = date_of deadline
                                then min (combine next_date pref_end + usec_hour) deadline
                                else combine next_date pref_end + usec_hour)
                          else (if current_date = date_of deadline
                                then min (combine current_date pref_end + usec_hour) deadline
                                else combine current_date pref_end + usec_hour));
          work_day_start = (if current_date = date_of earliest_start
                            then max (combine current_date (work_start p)) earliest_start
                            else combine current_date (work_start p));
          work_day_end = (if current_date = date_of deadline
                          then min (combine current_date (work_end p)) deadline
                          else combine current_date (work_end p));
          full_day_start = (if current_date = date_of earliest_start
                            then max (combine current_date 0) earliest_start
                            else combine current_date 0);
          full_day_end = (if current_date = date_of deadline
                          then min (combine current_date (usec_day - 1)) deadline
                          else combine current_date (usec_day - 1))
      in filter (\<lambda>w. fst w < snd w)
           [(day_start, day_end), (expanded_start, expanded_end),
            (work_day_start, work_day_end), (full_day_start, full_day_end)])"

definition general_score :: "db \<Rightarrow> datetime \<Rightarrow> slot \<Rightarrow> rat" where
  "general_score d start_time sl =
     score_slot_quality (fst sl) (snd sl) (db_events d) (db_prefs d)
       (work_start (db_prefs d)) (work_end (db_prefs d)) None (Some start_time)"


section \<open>Overlap of spans\<close>




section \<open>Concrete values\<close>

definition default_prefs :: prefs where
  \<comment> \<open>the defaults of \<^verbatim>\<open>get_user_preferences\<close>\<close>
  "default_prefs = \<lparr>sleep_start = hm 23 0, sleep_end = hm 7 0, work_start = hm 9 0,
     work_end = hm 18 0, round_to_minutes = 5\<rparr>"

definition dt_at :: "date \<Rightarrow> int \<Rightarrow> int \<Rightarrow> datetime" where
  "dt_at d h m = combine d (hm h m)"

definition ex_event :: "nat \<Rightarrow> category \<Rightarrow> datetime \<Rightarrow> datetime \<Rightarrow> event" where
  "ex_event i c s e = \<lparr>ev_id = i, title = ''t'', ev_category = c, priority = ''medium'',
     ev_type = ''fixed'', ev_start = s, ev_end = e, locked = False, ev_preferred_time = None\<rparr>"

definition db10 :: db where
  "db10 = \<lparr>db_events = [ex_event 1 Work (dt_at 10 9 0) (dt_at 10 9 30)],
     db_prefs = default_prefs, db_now = dt_at 10 8 0\<rparr>"

definition pt_10_11 :: preferred_time where
  "pt_10_11 = \<lparr>pt_enabled = True, pt_start = Some (hm 10 0), pt_end = Some (hm 11 0)\<rparr>"

definition bad_floating :: floating_request where
  "bad_floating = \<lparr>fq_duration = 0, fq_earliest_start = Some (dt_at 10 9 0),
     fq_deadline = Some (dt_at 10 9 0), fq_preferred_time = None\<rparr>"

definition bad_recurring :: recurring_request where
  "bad_recurring = \<lparr>rq_title = ''t'', rq_priority = ''medium'', rq_category = Work,
     rq_duration = 0, rq_frequency = 0, rq_start_date = Some (dt_at 10 9 0),
     rq_preferred_time = None\<rparr>"

definition db0 :: db where
  \<comment> \<open>an empty store with the default preferences\<close>
  "db0 = \<lparr>db_events = [], db_prefs = default_prefs, db_now = dt_at 10 6 0\<rparr>"

definition pt_8_9 :: preferred_time where
  "pt_8_9 = \<lparr>pt_enabled = True, pt_start = Some (hm 8 0), pt_end = Some (hm 9 0)\<rparr>"

definition pt_22_2 :: preferred_time where
  "pt_22_2 = \<lparr>pt_enabled = True, pt_start = Some (hm 22 0), pt_end = Some (hm 2 0)\<rparr>"

definition late_task :: floating_request where
  \<comment> \<open>45 minutes, between 09:00 and 22:30 of day 10, preferred overnight from 22:00 to 02:00\<close>
  "late_task = \<lparr>fq_duration = 45, fq_earliest_start = Some (dt_at 10 9 0),
     fq_deadline = Some (dt_at 10 22 30), fq_preferred_time = Some pt_22_2\<rparr>"


section \<open>Properties of the slot finder\<close>



lemma date_of_le: "date_of dt * usec_day \<le> dt"
  unfolding date_of_def usec_day_def by simp
















section \<open>Properties of the slot scorer\<close>

text \<open>
  C8: in \<^verbatim>\<open>score_slot_quality\<close> with a preferred window that is enabled and has both ends
  configured, a candidate whose start lies inside the window scores at least as much as a
  candidate whose start lies outside it, when the two get the same proximity points.
\<close>

theorem preferred_window_dominates:
  assumes "pt_enabled c" "pt_start c = Some a" "pt_end c = Some b"
    and "in_preferred a b (time_of s1)" "\<not> in_preferred a b (time_of s2)"
    and "factor6 s1 es = factor6 s2 es"
  shows "score_slot_quality s2 e2 evs p ws we (Some c) es
           \<le> score_slot_quality s1 e1 evs p ws we (Some c) es"
  using assms unfolding score_slot_quality_def factor1_def mode2_def Let_def
  by simp

theorem preferred_window_dominates_witness:
  "score_slot_quality (dt_at 10 12 30) (dt_at 10 13 30) [] default_prefs (hm 9 0) (hm 18 0)
       (Some pt_10_11) (Some (dt_at 10 9 0))
     \<le> score_slot_quality (dt_at 10 10 0) (dt_at 10 11 0) [] default_prefs (hm 9 0) (hm 18 0)
       (Some pt_10_11) (Some (dt_at 10 9 0))"
proof -
  have h1: "pt_enabled pt_10_11" by code_simp
  have h2: "pt_start pt_10_11 = Some (hm 10 0)" by (simp add: pt_10_11_def)
  have h3: "pt_end pt_10_11 = Some (hm 11 0)" by (simp add: pt_10_11_def)
  have h4: "in_preferred (hm 10 0) (hm 11 0) (time_of (dt_at 10 10 0))" by code_simp
  have h5: "\<not> in_preferred (hm 10 0) (hm 11 0) (time_of (dt_at 10 12 30))" by code_simp
  have h6: "factor6 (dt_at 10 10 0) (Some (dt_at 10 9 0)) = factor6 (dt_at 10 12 30) (Some (dt_at 10 9 0))"
    by code_simp
  from preferred_window_dominates[OF h1 h2 h3 h4 h5 h6] show ?thesis .
qed

section \<open>Validation of requests\<close>

text \<open>
  C9: both handlers reject malformed input before any slot search and without creating an
  event: a duration \<open>\<le> 0\<close> (both), a deadline not after the earliest start (floating), a
  frequency \<open>\<le> 0\<close> (recurring). The result is \<open>False\<close>, the store is unchanged, and no fuel
  is needed, so no search has run.
\<close>

theorem malformed_input_rejected:
  "(fq_duration fdata \<le> 0 \<longrightarrow> handle_floating_event fuel now d fdata new_event = Some (False, d))
   \<and> (fq_earliest_start fdata = Some es \<and> fq_deadline fdata = Some dl \<and> dl \<le> es
        \<longrightarrow> handle_floating_event fuel now d fdata new_event = Some (False, d))
   \<and> (rq_duration rdata \<le> 0 \<longrightarrow> handle_recurring_event fuel now d rdata = Some (False, [], d))
   \<and> (rq_frequency rdata \<le> 0 \<longrightarrow> handle_recurring_event fuel now d rdata = Some (False, [], d))"
  by (simp add: handle_floating_event_def handle_recurring_event_def Let_def)

theorem malformed_input_rejected_witness:
  "fq_duration bad_floating \<le> 0
   \<and> fq_earliest_start bad_floating = Some (dt_at 10 9 0)
   \<and> fq_deadline bad_floating = Some (dt_at 10 9 0) \<and> dt_at 10 9 0 \<le> dt_at 10 9 0
   \<and> handle_floating_event 0 (dt_at 10 8 0) db10 bad_floating (ex_event 0 Work 0 0)
        = Some (False, db10)
   \<and> rq_duration bad_recurring \<le> 0 \<and> rq_frequency bad_recurring \<le> 0
   \<and> handle_recurring_event 0 (dt_at 10 8 0) db10 bad_recurring = Some (False, [], db10)"
proof -
  have a: "fq_duration bad_floating \<le> 0" by (simp add: bad_floating_def)
  have b: "fq_earliest_start bad_floating = Some (dt_at 10 9 0)
   \<and> fq_deadline bad_floating = Some (dt_at 10 9 0) \<and> dt_at 10 9 0 \<le> dt_at 10 9 0"
    by (simp add: bad_floating_def)
  have c: "rq_duration bad_recurring \<le> 0" "rq_frequency bad_recurring \<le> 0"
    by (simp_all add: bad_recurring_def)
  from malformed_input_rejected[of bad_floating 0 "dt_at 10 8 0" db10 "ex_event 0 Work 0 0"
      "dt_at 10 9 0" "dt_at 10 9 0" bad_recurring] a b c
  show ?thesis by blast
qed

section \<open>The fallback search of the handlers\<close>

lemma first4:
  "first_slot fuel d dur [(a1, b1), (a2, b2), (a3, b3), (a4, b4)] =
     (case find_available_slot fuel d a1 b1 dur of
        None \<Rightarrow> None
      | Some (Some sl) \<Rightarrow> Some (Some sl)
      | Some None \<Rightarrow>
     (case find_available_slot fuel d a2 b2 dur of
        None \<Rightarrow> None
      | Some (Some sl) \<Rightarrow> Some (Some sl)
      | Some None \<Rightarrow>
     (case find_available_slot fuel d a3 b3 dur of
        None \<Rightarrow> None
      | Some (Some sl) \<Rightarrow> Some (Some sl)
      | Some None \<Rightarrow> find_available_slot fuel d a4 b4 dur)))"
  by (simp split: option.splits)

lemma first4_guarded:
  "first_slot fuel d dur (filter (\<lambda>w. fst w < snd w) [(a1, b1), (a2, b2), (a3, b3), (a4, b4)]) =
     (case window_slot fuel d a1 b1 dur of
        None \<Rightarrow> None
      | Some (Some sl) \<Rightarrow> Some (Some sl)
      | Some None \<Rightarrow>
     (case window_slot fuel d a2 b2 dur of
        None \<Rightarrow> None
      | Some (Some sl) \<Rightarrow> Some (Some sl)
      | Some None \<Rightarrow>
     (case window_slot fuel d a3 b3 dur of
        None \<Rightarrow> None
      | Some (Some sl) \<Rightarrow> Some (Some sl)
      | Some None \<Rightarrow> window_slot fuel d a4 b4 dur)))"
  by (simp add: window_slot_def split: option.splits)

lemma recurring_slot_first:
  "preferred_window cfg = Some (ps, pe) \<Longrightarrow>
   recurring_slot fuel d cfg dur cd = first_slot fuel d dur (recurring_windows (db_prefs d) ps pe cd)"
  unfolding recurring_slot_def recurring_windows_def Let_def first4 by simp

lemma floating_day_slot_first:
  "floating_day_slot fuel d ps pe dur es dl day
     = first_slot fuel d dur (floating_windows (db_prefs d) ps pe es dl day)"
  unfolding floating_day_slot_def floating_windows_def Let_def first4_guarded by (rule refl)

lemma first_slot_index:
  "first_slot fuel d dur ws = Some (Some sl) \<Longrightarrow>
   \<exists>i<length ws. find_available_slot fuel d (fst (ws ! i)) (snd (ws ! i)) dur = Some (Some sl)
      \<and> (\<forall>j<i. find_available_slot fuel d (fst (ws ! j)) (snd (ws ! j)) dur = Some None)"
proof (induction ws)
  case Nil
  then show ?case by simp
next
  case (Cons w ws)
  show ?case
  proof (cases "find_available_slot fuel d (fst w) (snd w) dur")
    case None
    with Cons.prems show ?thesis by simp
  next
    case (Some r)
    show ?thesis
    proof (cases r)
      case None
      with Some Cons.prems have "first_slot fuel d dur ws = Some (Some sl)" by simp
      from Cons.IH[OF this] obtain i where i: "i < length ws"
        "find_available_slot fuel d (fst (ws ! i)) (snd (ws ! i)) dur = Some (Some sl)"
        "\<forall>j<i. find_available_slot fuel d (fst (ws ! j)) (snd (ws ! j)) dur = Some None"
        by blast
      have "\<forall>j<Suc i. find_available_slot fuel d (fst ((w # ws) ! j)) (snd ((w # ws) ! j)) dur = Some None"
        using i(3) Some None by (auto simp: less_Suc_eq_0_disj)
      with i(1,2) show ?thesis by (intro exI[of _ "Suc i"]) simp
    next
      case (Some a)
      with \<open>find_available_slot fuel d (fst w) (snd w) dur = Some r\<close> Cons.prems
      have "find_available_slot fuel d (fst w) (snd w) dur = Some (Some sl)" by simp
      then show ?thesis by (intro exI[of _ 0]) simp
    qed
  qed
qed

lemma fas_loop_length:
  "fas_loop n d st en dur ct cands = Some res \<Longrightarrow> length cands \<le> 50 \<Longrightarrow> length res \<le> 50"
proof (induction n arbitrary: ct cands)
  case 0
  then show ?case by simp
next
  case (Suc n)
  show ?case
  proof (cases "ct + dur \<le> en \<and> length cands < 50")
    case False
    with Suc.prems show ?thesis by (auto simp: Let_def)
  next
    case True
    then show ?thesis using Suc.prems Suc.IH
      by (auto simp: Let_def split: if_splits)
  qed
qed

lemma hd_insort_key:
  "hd (insort_key f x ys) = (if ys = [] \<or> f x \<le> f (hd ys) then x else hd ys)"
  by (cases ys) auto

lemma sort_key_ne: "xs \<noteq> [] \<Longrightarrow> sort_key f xs \<noteq> []"
  by (metis length_0_conv length_sort)

lemma hd_sort_key_split:
  "xs \<noteq> [] \<Longrightarrow>
   \<exists>pre post. xs = pre @ hd (sort_key f xs) # post
      \<and> (\<forall>x\<in>set pre. f (hd (sort_key f xs)) < f x)
      \<and> (\<forall>x\<in>set post. f (hd (sort_key f xs)) \<le> f x)"
proof (induction xs)
  case Nil
  then show ?case by simp
next
  case (Cons x xs)
  show ?case
  proof (cases "xs = []")
    case True
    then show ?thesis by (intro exI[of _ "[]"]) simp
  next
    case False
    let ?h = "hd (sort_key f xs)"
    from Cons.IH[OF False] obtain pre post where
      sp: "xs = pre @ ?h # post" and
      p1: "\<forall>y\<in>set pre. f ?h < f y" and p2: "\<forall>y\<in>set post. f ?h \<le> f y"
      by blast
    have all: "\<forall>y\<in>set xs. f ?h \<le> f y"
    proof
      fix y assume "y \<in> set xs"
      hence "y \<in> set pre \<or> y = ?h \<or> y \<in> set post" by (subst (asm) sp) auto
      thus "f ?h \<le> f y" using p1 p2 by force
    qed
    have hd_eq: "hd (sort_key f (x # xs)) = (if f x \<le> f ?h then x else ?h)"
      using sort_key_ne[OF False, of f] by (simp add: hd_insort_key)
    show ?thesis
    proof (cases "f x \<le> f ?h")
      case True
      hence "\<forall>y\<in>set xs. f x \<le> f y" using all by force
      thus ?thesis using hd_eq True by (intro exI[of _ "[]"] exI[of _ xs]) simp
    next
      case False
      hence h: "hd (sort_key f (x # xs)) = ?h" using hd_eq by simp
      have "x # xs = (x # pre) @ ?h # post" using sp by simp
      moreover have "\<forall>y\<in>set (x # pre). f ?h < f y" using p1 False by auto
      ultimately show ?thesis unfolding h using p2 by blast
    qed
  qed
qed

lemma find_available_slot_best:
  assumes "find_available_slot fuel d s e dur = Some (Some sl)"
  shows "\<exists>pre post. fas_loop fuel d s e dur (round_to_interval s (round_to_minutes (db_prefs d))) []
             = Some (pre @ sl # post)
           \<and> length (pre @ sl # post) \<le> 50
           \<and> (\<forall>c\<in>set pre. general_score d s c < general_score d s sl)
           \<and> (\<forall>c\<in>set post. general_score d s c \<le> general_score d s sl)"
proof -
  obtain res where r: "fas_loop fuel d s e dur
             (round_to_interval s (round_to_minutes (db_prefs d))) [] = Some res"
    using assms unfolding find_available_slot_def Let_def by (auto split: option.splits)
  have ne: "res \<noteq> []" using assms r unfolding find_available_slot_def Let_def
    by (auto split: if_splits)
  have len: "length res \<le> 50" using fas_loop_length[OF r] by simp
  show ?thesis
  proof (cases "length res = 1")
    case True
    hence "res = [sl]" using assms r ne unfolding find_available_slot_def Let_def
      by (cases res) auto
    thus ?thesis using r by (intro exI[of _ "[]"]) simp
  next
    case False
    let ?g = "general_score d s"
    let ?sc = "map (\<lambda>(slot_start, slot_end).
                          (score_slot_quality slot_start slot_end (db_events d) (db_prefs d)
                             (work_start (db_prefs d)) (work_end (db_prefs d)) None (Some s),
                           (slot_start, slot_end))) res"
    have sc: "?sc = map (\<lambda>c. (?g c, c)) res"
      by (auto simp: general_score_def split: prod.splits)
    let ?h = "hd (sort_key (\<lambda>x. - fst x) ?sc)"
    have sne: "?sc \<noteq> []" using ne by simp
    have sl: "sl = snd ?h"
      using assms r ne False unfolding find_available_slot_def Let_def best_slot_def by simp
    from hd_sort_key_split[OF sne, of "\<lambda>x. - fst x"] obtain pre post where
      sp: "?sc = pre @ ?h # post" and
      p1: "\<forall>x\<in>set pre. - fst ?h < - fst x" and p2: "\<forall>x\<in>set post. - fst ?h \<le> - fst x"
      by blast
    have hin: "?h \<in> set ?sc" by (subst (2) sp) simp
    hence fh: "fst ?h = ?g (snd ?h)" unfolding sc by auto
    have pin: "\<forall>x\<in>set pre. fst x = ?g (snd x)"
    proof
      fix x assume "x \<in> set pre"
      hence "x \<in> set ?sc" by (subst sp) simp
      thus "fst x = ?g (snd x)" unfolding sc by auto
    qed
    have poin: "\<forall>x\<in>set post. fst x = ?g (snd x)"
    proof
      fix x assume "x \<in> set post"
      hence "x \<in> set ?sc" by (subst sp) simp
      thus "fst x = ?g (snd x)" unfolding sc by auto
    qed
    have "map snd ?sc = res" unfolding sc by (simp add: comp_def)
    hence res: "res = map snd pre @ sl # map snd post" 
      using arg_cong[OF sp, of "map snd"] sl by simp
    have a: "\<forall>c\<in>set (map snd pre). ?g c < ?g sl" using p1 pin fh sl by auto
    have b: "\<forall>c\<in>set (map snd post). ?g c \<le> ?g sl" using p2 poin fh sl by auto
    show ?thesis using r len a b unfolding res by blast
  qed
qed

text \<open>
  C2, as the claim states it, fails: with an empty store, the default preferences and the
  preferred window 08:00 to 09:00, the search of one recurring occurrence and of one
  floating-task day returns the slot of the exact window, 08:00 to 09:00 (score 45), although
  the work-hours window holds the candidate 10:00 to 11:00 (score 77).
\<close>

theorem fallback_search_stops_counterexample:
  "recurring_slot 60 db0 (Some pt_8_9) (60 * usec_min) (dt_at 10 0 0)
     = Some (Some (dt_at 10 8 0, dt_at 10 9 0))
   \<and> floating_day_slot 60 db0 (hm 8 0) (hm 9 0) (60 * usec_min) (dt_at 10 6 0) (dt_at 12 6 0) 10
     = Some (Some (dt_at 10 8 0, dt_at 10 9 0))
   \<and> fas_loop 60 db0 (dt_at 10 9 0) (dt_at 10 18 0) (60 * usec_min)
        (round_to_interval (dt_at 10 9 0) 5) [] \<noteq> None
   \<and> (dt_at 10 10 0, dt_at 10 11 0)
        \<in> set (the (fas_loop 60 db0 (dt_at 10 9 0) (dt_at 10 18 0) (60 * usec_min)
                    (round_to_interval (dt_at 10 9 0) 5) []))
   \<and> general_score db0 (dt_at 10 8 0) (dt_at 10 8 0, dt_at 10 9 0) = 45
   \<and> general_score db0 (dt_at 10 9 0) (dt_at 10 10 0, dt_at 10 11 0) = 77"
  by code_simp

text \<open>
  C2, amended: a single-placement attempt tries the fallback windows in priority order and
  stops at the first window in which \<^verbatim>\<open>find_available_slot\<close> finds a slot; a lower-priority
  window is searched only when every window before it yields none. The cap of 50
  candidates holds within the one window searched, and the slot returned is the first
  candidate of maximal general-quality score among that window's candidates.
\<close>

theorem fallback_first_window_wins:
  "(preferred_window cfg = Some (ps, pe) \<longrightarrow>
      recurring_slot fuel d cfg dur cd
        = first_slot fuel d dur (recurring_windows (db_prefs d) ps pe cd))
   \<and> floating_day_slot fuel d fps fpe dur es dl day
        = first_slot fuel d dur (floating_windows (db_prefs d) fps fpe es dl day)
   \<and> (first_slot fuel d dur ws = Some (Some sl) \<longrightarrow>
        (\<exists>i<length ws.
            find_available_slot fuel d (fst (ws ! i)) (snd (ws ! i)) dur = Some (Some sl)
            \<and> (\<forall>j<i. find_available_slot fuel d (fst (ws ! j)) (snd (ws ! j)) dur = Some None)))
   \<and> (find_available_slot fuel d s e dur = Some (Some sl') \<longrightarrow>
        (\<exists>pre post.
            fas_loop fuel d s e dur (round_to_interval s (round_to_minutes (db_prefs d))) []
              = Some (pre @ sl' # post)
            \<and> length (pre @ sl' # post) \<le> 50
            \<and> (\<forall>c\<in>set pre. general_score d s c < general_score d s sl')
            \<and> (\<forall>c\<in>set post. general_score d s c \<le> general_score d s sl')))"
proof (intro conjI impI)
  assume "preferred_window cfg = Some (ps, pe)"
  thus "recurring_slot fuel d cfg dur cd
        = first_slot fuel d dur (recurring_windows (db_prefs d) ps pe cd)"
    by (rule recurring_slot_first)
next
  show "floating_day_slot fuel d fps fpe dur es dl day
        = first_slot fuel d dur (floating_windows (db_prefs d) fps fpe es dl day)"
    by (rule floating_day_slot_first)
next
  assume "first_slot fuel d dur ws = Some (Some sl)"
  thus "\<exists>i<length ws.
            find_available_slot fuel d (fst (ws ! i)) (snd (ws ! i)) dur = Some (Some sl)
            \<and> (\<forall>j<i. find_available_slot fuel d (fst (ws ! j)) (snd (ws ! j)) dur = Some None)"
    by (rule first_slot_index)
next
  assume "find_available_slot fuel d s e dur = Some (Some sl')"
  thus "\<exists>pre post.
            fas_loop fuel d s e dur (round_to_interval s (round_to_minutes (db_prefs d))) []
              = Some (pre @ sl' # post)
            \<and> length (pre @ sl' # post) \<le> 50
            \<and> (\<forall>c\<in>set pre. general_score d s c < general_score d s sl')
            \<and> (\<forall>c\<in>set post. general_score d s c \<le> general_score d s sl')"
    by (rule find_available_slot_best)
qed

theorem fallback_first_window_wins_witness:
  "preferred_window (Some pt_8_9) = Some (hm 8 0, hm 9 0)
   \<and> recurring_slot 60 db0 (Some pt_8_9) (60 * usec_min) (dt_at 10 0 0)
        = first_slot 60 db0 (60 * usec_min)
            (recurring_windows (db_prefs db0) (hm 8 0) (hm 9 0) (dt_at 10 0 0))
   \<and> first_slot 60 db0 (60 * usec_min)
        (recurring_windows (db_prefs db0) (hm 8 0) (hm 9 0) (dt_at 10 0 0))
        = Some (Some (dt_at 10 8 0, dt_at 10 9 0))
   \<and> find_available_slot 60 db0 (dt_at 10 8 0) (dt_at 10 9 0) (60 * usec_min)
        = Some (Some (dt_at 10 8 0, dt_at 10 9 0))
   \<and> (\<exists>pre post.
         fas_loop 60 db0 (dt_at 10 8 0) (dt_at 10 9 0) (60 * usec_min)
           (round_to_interval (dt_at 10 8 0) (round_to_minutes (db_prefs db0))) []
           = Some (pre @ (dt_at 10 8 0, dt_at 10 9 0) # post)
         \<and> length (pre @ (dt_at 10 8 0, dt_at 10 9 0) # post) \<le> 50)"
proof -
  have a: "preferred_window (Some pt_8_9) = Some (hm 8 0, hm 9 0)" by code_simp
  have b: "first_slot 60 db0 (60 * usec_min)
        (recurring_windows (db_prefs db0) (hm 8 0) (hm 9 0) (dt_at 10 0 0))
        = Some (Some (dt_at 10 8 0, dt_at 10 9 0))" by code_simp
  have c: "find_available_slot 60 db0 (dt_at 10 8 0) (dt_at 10 9 0) (60 * usec_min)
        = Some (Some (dt_at 10 8 0, dt_at 10 9 0))" by code_simp
  from fallback_first_window_wins[of "Some pt_8_9" "hm 8 0" "hm 9 0" 60 db0 "60 * usec_min"
      "dt_at 10 0 0" 0 0 0 0 0
      "recurring_windows (db_prefs db0) (hm 8 0) (hm 9 0) (dt_at 10 0 0)"
      "(dt_at 10 8 0, dt_at 10 9 0)" "dt_at 10 8 0" "dt_at 10 9 0"
      "(dt_at 10 8 0, dt_at 10 9 0)"] a b c
  show ?thesis by blast
qed

section \<open>The range of a floating task\<close>

text \<open>
  C4 fails on the code. The request \<open>late_task\<close> asks for 45 minutes between 09:00 and 22:30
  of one day, with the overnight preferred window 22:00 to 02:00. On the day of the deadline
  the exact window ends on the next date, which is not the date of the deadline, so the
  window is not cut at the deadline: the handler creates the event 22:00 to 22:45.
\<close>

theorem floating_deadline_overrun:
  "handle_floating_event 20 (dt_at 10 8 0) db0 late_task (ex_event 0 Work 0 0)
     = Some (True, create_event db0
         ((ex_event 0 Work 0 0)\<lparr>ev_start := dt_at 10 22 0, ev_end := dt_at 10 22 45,
            ev_preferred_time := Some pt_22_2\<rparr>))
   \<and> fq_deadline late_task = Some (dt_at 10 22 30)
   \<and> dt_at 10 22 30 < dt_at 10 22 45"
  by code_simp

section \<open>The instances of a recurring event\<close>

















end
